theory Spec2Isabelle
  imports Complex_Main
begin

section \<open>Survey: threading a reference frame through a beamline\<close>

text \<open>
  \<^verbatim>\<open>survey.py\<close> walks the element list of an \<^verbatim>\<open>Input\<close>, calls \<^verbatim>\<open>place\<close> on every
  element that is an instance of \<^verbatim>\<open>Patchable\<close> and carries the element's \<^verbatim>\<open>exit\<close> frame
  to the next one. The elements are Python objects that are mutated in place and may be
  shared, so they live in a store indexed by references; the element list of an
  \<^verbatim>\<open>Input\<close> is a list object of its own, held by reference as well.

  \<^verbatim>\<open>Frame\<close>, \<^verbatim>\<open>Patchable.place\<close> and \<^verbatim>\<open>Patchable.exit\<close> are not part of the two source files:
  frames are values of an arbitrary type \<open>'f\<close>, the state of a Patchable object is a value
  of an arbitrary type \<open>'p\<close>, and \<open>place\<close>, \<open>exit\<close> and the default frame \<^verbatim>\<open>Frame()\<close> are
  parameters of the model. An exception raised inside \<^verbatim>\<open>place\<close> is outside the model.
\<close>

type_synonym ref = nat

text \<open>An object of the line: \<^verbatim>\<open>isinstance(e, Patchable)\<close> holds for the first constructor only.\<close>

datatype ('p, 'o) obj = Patchable 'p | Other 'o

fun is_Patchable :: "('p, 'o) obj \<Rightarrow> bool" where
  "is_Patchable (Patchable p) = True"
| "is_Patchable (Other x) = False"

record ('p, 'o) heap =
  list_store :: "ref \<Rightarrow> ref list"
  objs :: "ref \<Rightarrow> ('p, 'o) obj"

text \<open>
  Modelled from the spec: the class \<^verbatim>\<open>Input\<close> is not under src/; it is ``constructible from
  (name, line)'' and keeps both as given, the line as a reference to the list object.
\<close>

record Input =
  name :: string
  line :: ref

text \<open>
  One call \<^verbatim>\<open>e.place(frame)\<close> followed by the read of \<^verbatim>\<open>e.exit\<close>, as the loop performs them:
  the object called, the frame passed to \<^verbatim>\<open>place\<close> and the frame read from \<^verbatim>\<open>exit\<close>.
\<close>

record 'f place_call =
  callee :: ref
  entry_frame :: 'f
  exit_frame :: 'f

text \<open>
  The loop of \<^verbatim>\<open>survey\<close> (lines 15 to 19) over the references of the line, from the
  current object store and the running frame. It returns the object store after the
  loop and the calls made, in order.
  \<^verbatim>\<open>
    for e in beamline.line:
        if not isinstance(e, Patchable):
            continue
        e.place(frame)
        frame = e.exit
  \<close>
\<close>

fun survey_loop ::
  "('p \<Rightarrow> 'f \<Rightarrow> 'p) \<Rightarrow> ('p \<Rightarrow> 'f) \<Rightarrow> (ref \<Rightarrow> ('p, 'o) obj) \<Rightarrow> 'f \<Rightarrow> ref list
    \<Rightarrow> (ref \<Rightarrow> ('p, 'o) obj) \<times> 'f place_call list" where
  "survey_loop place exit_of st frame [] = (st, [])"
| "survey_loop place exit_of st frame (e # es) =
     (case st e of
        Other x \<Rightarrow> survey_loop place exit_of st frame es
      | Patchable p \<Rightarrow>
          (let p' = place p frame;
               st' = st(e := Patchable p');
               frame' = exit_of p';
               (st'', calls) = survey_loop place exit_of st' frame' es
           in (st'', \<lparr>callee = e, entry_frame = frame, exit_frame = frame'\<rparr> # calls)))"

text \<open>
  \<^verbatim>\<open>survey(beamline, reference_frame)\<close>. \<open>default_frame\<close> is the value of \<^verbatim>\<open>Frame()\<close>;
  \<^verbatim>\<open>reference_frame or Frame()\<close> takes the default when no frame is given (a \<^verbatim>\<open>Frame\<close>
  object is taken to be truthy, as an object without \<^verbatim>\<open>__bool__\<close> is). The result is the
  new \<^verbatim>\<open>Input\<close>, the heap after the calls, and the calls.
\<close>

definition survey ::
  "('p \<Rightarrow> 'f \<Rightarrow> 'p) \<Rightarrow> ('p \<Rightarrow> 'f) \<Rightarrow> 'f \<Rightarrow> ('p, 'o) heap \<Rightarrow> Input \<Rightarrow> 'f option
    \<Rightarrow> Input \<times> ('p, 'o) heap \<times> 'f place_call list" where
  "survey place exit_of default_frame h beamline reference_frame =
     (let surveyed_line = \<lparr>name = name beamline, line = line beamline\<rparr>;
          frame = (case reference_frame of None \<Rightarrow> default_frame | Some f \<Rightarrow> f);
          (st', calls) = survey_loop place exit_of (objs h) frame (list_store h (line beamline))
      in (surveyed_line, h\<lparr>objs := st'\<rparr>, calls))"

section \<open>Numbers, quantities and errors of the converters\<close>

text \<open>
  An attribute of an element or of the kinematics is a Python float: a number or
  \<^verbatim>\<open>nan\<close>, which the converters read as ``unset''. Finite numbers are reals here;
  rounding, overflow and infinities are not part of the model.
\<close>

datatype pyfloat = NaN | Fin real

fun isnan :: "pyfloat \<Rightarrow> bool" where
  "isnan NaN = True"
| "isnan (Fin x) = False"

fun fneg :: "pyfloat \<Rightarrow> pyfloat" where
  "fneg NaN = NaN"
| "fneg (Fin x) = Fin (- x)"

fun fabs :: "pyfloat \<Rightarrow> pyfloat" where
  "fabs NaN = NaN"
| "fabs (Fin x) = Fin \<bar>x\<bar>"

text \<open>\<^verbatim>\<open>numpy.sign\<close>: -1, 0 or 1, and \<^verbatim>\<open>nan\<close> for \<^verbatim>\<open>nan\<close>.\<close>

fun fsign :: "pyfloat \<Rightarrow> pyfloat" where
  "fsign NaN = NaN"
| "fsign (Fin x) = Fin (sgn x)"

fun fadd :: "pyfloat \<Rightarrow> pyfloat \<Rightarrow> pyfloat" where
  "fadd (Fin x) (Fin y) = Fin (x + y)"
| "fadd a b = NaN"

fun fmul :: "pyfloat \<Rightarrow> pyfloat \<Rightarrow> pyfloat" where
  "fmul (Fin x) (Fin y) = Fin (x * y)"
| "fmul a b = NaN"

text \<open>Comparisons: every ordered or equality comparison with \<^verbatim>\<open>nan\<close> is false, \<^verbatim>\<open>!=\<close> is true.\<close>

fun feq :: "pyfloat \<Rightarrow> pyfloat \<Rightarrow> bool" where
  "feq (Fin x) (Fin y) = (x = y)"
| "feq a b = False"

definition fne :: "pyfloat \<Rightarrow> pyfloat \<Rightarrow> bool" where
  "fne a b = (\<not> feq a b)"

fun flt :: "pyfloat \<Rightarrow> pyfloat \<Rightarrow> bool" where
  "flt (Fin x) (Fin y) = (x < y)"
| "flt a b = False"

fun fge :: "pyfloat \<Rightarrow> pyfloat \<Rightarrow> bool" where
  "fge (Fin x) (Fin y) = (x \<ge> y)"
| "fge a b = False"

datatype error = KeyError string | ZeroDivisionError

text \<open>Sequencing of two steps of which the first may raise.\<close>

definition and_then :: "error + 'a \<Rightarrow> ('a \<Rightarrow> error + 'b) \<Rightarrow> error + 'b" where
  "and_then m f = (case m of Inl err \<Rightarrow> Inl err | Inr v \<Rightarrow> f v)"

text \<open>
  The quotient \<^verbatim>\<open>a / b\<close> of two run-time values belongs to the number and quantity types
  the elements carry, which are not part of the two source files: Python floats raise
  \<^verbatim>\<open>ZeroDivisionError\<close> on a zero divisor, NumPy scalars do not. The converters below
  therefore take the quotient as a parameter \<open>qdiv\<close> that may raise; \<open>truediv\<close> is the
  quotient of Python floats.
\<close>

fun truediv :: "pyfloat \<Rightarrow> pyfloat \<Rightarrow> error + pyfloat" where
  "truediv a (Fin y) =
     (if y = 0 then Inl ZeroDivisionError
      else (case a of NaN \<Rightarrow> Inr NaN | Fin x \<Rightarrow> Inr (Fin (x / y))))"
| "truediv a NaN = Inr NaN"

text \<open>
  Modelled from the spec: the unit registry \<^verbatim>\<open>_ureg\<close> of the external unit layer is not
  under src/. A quantity is represented by its magnitude in SI base units (metre, tesla,
  radian, hertz, volt), and a unit by its size in them, so that \<^verbatim>\<open>10 * _ureg.cm\<close> is 0.1.
  Dimensions are not tracked.
\<close>

definition ureg_m :: real where "ureg_m = 1"
definition ureg_meter :: real where "ureg_meter = 1"
definition ureg_cm :: real where "ureg_cm = 1 / 100"
definition ureg_mm :: real where "ureg_mm = 1 / 1000"
definition ureg_tesla :: real where "ureg_tesla = 1"
definition ureg_radian :: real where "ureg_radian = 1"
definition ureg_MHz :: real where "ureg_MHz = 1000000"
definition ureg_MV :: real where "ureg_MV = 1000000"

text \<open>\<^verbatim>\<open>x * unit\<close>, \<^verbatim>\<open>x / unit\<close> and \<^verbatim>\<open>q.m_as(unit)\<close> for a unit of the registry.\<close>

definition in_unit :: "pyfloat \<Rightarrow> real \<Rightarrow> pyfloat" where
  "in_unit x u = fmul x (Fin u)"

fun per_unit :: "pyfloat \<Rightarrow> real \<Rightarrow> pyfloat" where
  "per_unit NaN u = NaN"
| "per_unit (Fin x) u = Fin (x / u)"


section \<open>Elements, kinematics, options and commands\<close>

text \<open>
  An element is a name and a keyed bag of attributes: \<^verbatim>\<open>element['K']\<close> raises
  \<^verbatim>\<open>KeyError\<close> for an absent key, \<^verbatim>\<open>element.get('K')\<close> is \<^verbatim>\<open>None\<close> for it.
\<close>

record element =
  name :: string
  attrs :: "string \<rightharpoonup> pyfloat"

definition getitem :: "element \<Rightarrow> string \<Rightarrow> error + pyfloat" where
  "getitem e k = (case attrs e k of None \<Rightarrow> Inl (KeyError k) | Some v \<Rightarrow> Inr v)"

text \<open>\<^verbatim>\<open>kinematics.brho\<close> and its magnitude \<^verbatim>\<open>kinematics.brho_\<close>.\<close>

record kinematics =
  brho :: pyfloat
  brho_m :: pyfloat

datatype cmd_class =
  Marker | Drift | Bend | ChangeRef | Multipole | Quadrupole | Sextupole | Octupole | Cavite

text \<open>The recognised keys of the options: \<^verbatim>\<open>command\<close> and \<^verbatim>\<open>R0\<close>, each possibly absent.\<close>

record options =
  command :: "cmd_class option"
  R0 :: "pyfloat option"

text \<open>
  Modelled from the spec: the command classes are not under src/; a command is
  ``constructible with a label and named physical-parameter fields''. A command is its
  class, its first label (given, generated by \<^verbatim>\<open>generate_label(prefix=...)\<close>, or left out)
  and the attributes set on it, the latest first.
\<close>

datatype label = Unlabelled | Label string | Generated string

datatype arg =
  Qty pyfloat | Int_arg int | Str string | Transformations "(string \<times> pyfloat) list"

record Command =
  cls :: cmd_class
  label1 :: label
  attributes :: "(string \<times> arg) list"

definition getattr :: "Command \<Rightarrow> string \<Rightarrow> arg option" where
  "getattr c k = map_of (attributes c) k"

definition setattr :: "Command \<Rightarrow> string \<Rightarrow> arg \<Rightarrow> Command" where
  "setattr c k v = c\<lparr>attributes := (k, v) # attributes c\<rparr>"

text \<open>\<^verbatim>\<open>ChangeRef(label, TRANSFORMATIONS=[['XR', angle]])\<close>.\<close>

definition ChangeRef_XR :: "string \<Rightarrow> pyfloat \<Rightarrow> Command" where
  "ChangeRef_XR lbl angle =
     \<lparr>cls = ChangeRef, label1 = Label lbl,
      attributes = [(''TRANSFORMATIONS'', Transformations [(''XR'', angle)])]\<rparr>"

section \<open>The converters\<close>


text \<open>
  \<^verbatim>\<open>sbend_to_zgoubi\<close>, lines 87 to 111: the field \<^verbatim>\<open>b1\<close>, the pole-face angles, the tilt
  and the command \<^verbatim>\<open>b\<close> with its colour; lines 112 to 128: the three-way return.
\<close>

definition sbend_to_zgoubi ::
  "(pyfloat \<Rightarrow> pyfloat \<Rightarrow> error + pyfloat) \<Rightarrow> nat \<Rightarrow> element \<Rightarrow> kinematics \<Rightarrow> options
    \<Rightarrow> error + Command list" where
  "sbend_to_zgoubi qdiv label_length element kin opts =
     and_then (getitem element ''ANGLE'') (\<lambda>angle.
     and_then
       (if feq angle (Fin 0) then Inr (in_unit (Fin 0) ureg_tesla)
        else and_then (getitem element ''L'') (\<lambda>l.
             and_then (qdiv l (fabs angle)) (\<lambda>rho. qdiv (brho kin) rho))) (\<lambda>b1.
     and_then (getitem element ''E1'') (\<lambda>e1.
     let we = (if isnan e1 then in_unit (Fin 0) ureg_radian else e1) in
     and_then (getitem element ''E2'') (\<lambda>e2.
     let ws = (if isnan e2 then in_unit (Fin 0) ureg_radian else e2) in
     and_then (getitem element ''TILT'') (\<lambda>t.
     let tilt = (if isnan t then in_unit (Fin 0) ureg_radian else t) in
     and_then (getitem element ''L'') (\<lambda>xl.
     let b0 = \<lparr>cls = (case command opts of None \<Rightarrow> Bend | Some c \<Rightarrow> c),
               label1 = Label (take label_length (name element)),
               attributes =
                 [(''XL'', Qty xl),
                  (''B1'', Qty b1),
                  (''KPOS'', Int_arg 3),
                  (''W_E'', Qty (fmul we (fsign angle))),
                  (''W_S'', Qty (fmul ws (fsign angle)))]\<rparr>;
         b = (if fne t (Fin 0) then setattr b0 ''COLOR'' (Str ''goldenrod'') else b0)
     in if flt angle (Fin 0) then
          Inr [ChangeRef_XR (name element @ ''_CRL'')
                 (fneg (fadd (fneg tilt) (in_unit (Fin pi) ureg_radian))),
               b,
               ChangeRef_XR (name element @ ''_CRR'')
                 (fadd (fneg tilt) (in_unit (Fin pi) ureg_radian))]
        else if isnan t then Inr [b]
        else Inr [ChangeRef_XR (name element @ ''_CRL'') tilt,
                  b,
                  ChangeRef_XR (name element @ ''_CRR'') (fneg tilt)]))))))"

text \<open>
  \<^verbatim>\<open>quadrupole_to_zgoubi\<close>. The first \<^verbatim>\<open>if\<close> (line 143) assigns the zero gradient and is
  followed by a second, separate \<^verbatim>\<open>if\<close>/\<^verbatim>\<open>else\<close> (lines 147 to 150), which either
  overwrites the gradient or raises.
\<close>

definition quadrupole_to_zgoubi ::
  "nat \<Rightarrow> element \<Rightarrow> kinematics \<Rightarrow> options \<Rightarrow> error + Command list" where
  "quadrupole_to_zgoubi label_length element kin opts =
     (let bore_radius = (case R0 opts of None \<Rightarrow> in_unit (Fin 10) ureg_cm | Some r \<Rightarrow> r);
          gradient0 = (if attrs element ''K1'' = None \<and> attrs element ''K1L'' = None
                       then Some (per_unit (Fin 0) (ureg_m ^ 2)) else None)
      in and_then
           (if attrs element ''K1'' \<noteq> None
            then and_then (getitem element ''K1'') (\<lambda>k1. Inr (per_unit k1 (ureg_m ^ 2)))
            else Inl (KeyError ''K1 and K1L cannot be defined at the same time.'')) (\<lambda>gradient.
         and_then (getitem element ''L'') (\<lambda>l.
         Inr [\<lparr>cls = Quadrupole, label1 = Label (take label_length (name element)),
               attributes =
                 [(''XL'', Qty l),
                  (''R0'', Qty bore_radius),
                  (''B0'', Qty (fmul (fmul gradient (brho kin)) bore_radius)),
                  (''XE'', Qty (in_unit (Fin 0) ureg_cm)),
                  (''LAM_E'', Qty (in_unit (Fin 0) ureg_cm)),
                  (''XS'', Qty (in_unit (Fin 0) ureg_cm)),
                  (''LAM_S'', Qty (in_unit (Fin 0) ureg_cm))]\<rparr>])))"

definition twcavity_to_zgoubi ::
  "nat \<Rightarrow> element \<Rightarrow> kinematics \<Rightarrow> options \<Rightarrow> error + Command list" where
  "twcavity_to_zgoubi label_length element kin opts =
     and_then (getitem element ''FREQ'') (\<lambda>freq.
     and_then (getitem element ''VOLT'') (\<lambda>volt.
     and_then (getitem element ''LAG'') (\<lambda>lag.
     let cavity = \<lparr>cls = Cavite, label1 = Label (take label_length (name element)),
                   attributes =
                     [(''IOPT'', Int_arg 10),
                      (''XL'', Qty (in_unit (Fin 1) ureg_m)),
                      (''FREQ'', Qty (in_unit freq ureg_MHz)),
                      (''V'', Qty (fmul (in_unit volt ureg_MV) (fsign (brho kin)))),
                      (''PHI_S'', Qty (in_unit (fadd lag (Fin (pi / 2))) ureg_radian))]\<rparr>
     in Inr [\<lparr>cls = Drift, label1 = Unlabelled,
              attributes = [(''XL'', Qty (in_unit (Fin 1) ureg_mm))]\<rparr>,
             cavity])))"

section \<open>Properties of the survey\<close>

lemma survey_loop_callees:
  "map callee (snd (survey_loop place exit_of st frame es)) =
     filter (\<lambda>r. is_Patchable (st r)) es"
proof (induction es arbitrary: st frame)
  case Nil
  show ?case by simp
next
  case (Cons e es)
  show ?case
  proof (cases "st e")
    case (Other x)
    then show ?thesis using Cons.IH [of st frame] by simp
  next
    case (Patchable p)
    let ?st' = "st(e := Patchable (place p frame))"
    have same: "(\<lambda>r. is_Patchable (?st' r)) = (\<lambda>r. is_Patchable (st r))"
      using Patchable by (auto simp: fun_eq_iff)
    have "map callee (snd (survey_loop place exit_of ?st' (exit_of (place p frame)) es)) =
            filter (\<lambda>r. is_Patchable (st r)) es"
      using Cons.IH [of ?st' "exit_of (place p frame)"] unfolding same .
    then show ?thesis
      using Patchable by (simp add: Let_def split_beta del: fun_upd_apply)
  qed
qed

lemma survey_loop_chain:
  "(snd (survey_loop place exit_of st frame es) \<noteq> [] \<longrightarrow>
      entry_frame (hd (snd (survey_loop place exit_of st frame es))) = frame) \<and>
   (\<forall>i. Suc i < length (snd (survey_loop place exit_of st frame es)) \<longrightarrow>
      entry_frame (snd (survey_loop place exit_of st frame es) ! Suc i) =
      exit_frame (snd (survey_loop place exit_of st frame es) ! i))"
proof (induction es arbitrary: st frame)
  case Nil
  show ?case by simp
next
  case (Cons e es)
  show ?case
  proof (cases "st e")
    case (Other x)
    then show ?thesis using Cons.IH [of st frame] by simp
  next
    case (Patchable p)
    let ?st' = "st(e := Patchable (place p frame))"
    let ?f' = "exit_of (place p frame)"
    let ?cs = "snd (survey_loop place exit_of ?st' ?f' es)"
    have eq: "snd (survey_loop place exit_of st frame (e # es)) =
                \<lparr>callee = e, entry_frame = frame, exit_frame = ?f'\<rparr> # ?cs"
      using Patchable by (simp add: Let_def split_beta)
    have ih1: "?cs \<noteq> [] \<longrightarrow> entry_frame (hd ?cs) = ?f'"
      and ih2: "\<forall>i. Suc i < length ?cs \<longrightarrow> entry_frame (?cs ! Suc i) = exit_frame (?cs ! i)"
      using Cons.IH [of ?st' ?f'] by blast+
    have "entry_frame ((\<lparr>callee = e, entry_frame = frame, exit_frame = ?f'\<rparr> # ?cs) ! Suc i) =
          exit_frame ((\<lparr>callee = e, entry_frame = frame, exit_frame = ?f'\<rparr> # ?cs) ! i)"
      if "Suc i < length (\<lparr>callee = e, entry_frame = frame, exit_frame = ?f'\<rparr> # ?cs)" for i
    proof (cases i)
      case 0
      with that have "?cs \<noteq> []" by auto
      with ih1 have "entry_frame (?cs ! 0) = ?f'" by (simp add: hd_conv_nth)
      with 0 show ?thesis by simp
    next
      case (Suc j)
      with that have "Suc j < length ?cs" by simp
      with ih2 Suc show ?thesis by simp
    qed
    then show ?thesis unfolding eq by simp
  qed
qed

lemma survey_loop_untouched:
  "r \<notin> set (filter (\<lambda>r. is_Patchable (st r)) es) \<Longrightarrow>
     fst (survey_loop place exit_of st frame es) r = st r"
proof (induction es arbitrary: st frame)
  case Nil
  show ?case by simp
next
  case (Cons e es)
  show ?case
  proof (cases "st e")
    case (Other x)
    then show ?thesis using Cons.IH [of st frame] Cons.prems by simp
  next
    case (Patchable p)
    let ?st' = "st(e := Patchable (place p frame))"
    have same: "(\<lambda>r. is_Patchable (?st' r)) = (\<lambda>r. is_Patchable (st r))"
      using Patchable by (auto simp: fun_eq_iff)
    from Cons.prems Patchable have ne: "r \<noteq> e"
      and notin: "r \<notin> set (filter (\<lambda>r. is_Patchable (st r)) es)" by auto
    from notin have "r \<notin> set (filter (\<lambda>r. is_Patchable (?st' r)) es)"
      unfolding same .
    then have "fst (survey_loop place exit_of ?st' (exit_of (place p frame)) es) r = ?st' r"
      by (rule Cons.IH)
    then show ?thesis using Patchable ne by (simp add: Let_def split_beta)
  qed
qed

lemma survey_loop_skip:
  "st r = Other x \<Longrightarrow>
     survey_loop place exit_of st frame (xs @ r # ys) =
     survey_loop place exit_of st frame (xs @ ys)"
proof (induction xs arbitrary: st frame)
  case Nil
  then show ?case by simp
next
  case (Cons e xs)
  show ?case
  proof (cases "st e")
    case (Other y)
    then show ?thesis using Cons.IH [of st frame] Cons.prems by simp
  next
    case (Patchable p)
    let ?st' = "st(e := Patchable (place p frame))"
    from Patchable Cons.prems have "e \<noteq> r" by auto
    then have "?st' r = Other x" using Cons.prems by simp
    then have "survey_loop place exit_of ?st' (exit_of (place p frame)) (xs @ r # ys) =
               survey_loop place exit_of ?st' (exit_of (place p frame)) (xs @ ys)"
      by (rule Cons.IH)
    then show ?thesis using Patchable by (simp add: Let_def)
  qed
qed


lemma survey_loop_placed:
  "distinct (filter (\<lambda>r. is_Patchable (st r)) es) \<Longrightarrow>
   c \<in> set (snd (survey_loop place exit_of st frame es)) \<Longrightarrow>
   \<exists>p. st (callee c) = Patchable p \<and>
       fst (survey_loop place exit_of st frame es) (callee c) = Patchable (place p (entry_frame c)) \<and>
       exit_frame c = exit_of (place p (entry_frame c))"
proof (induction es arbitrary: st frame)
  case Nil
  then show ?case by simp
next
  case (Cons e es)
  show ?case
  proof (cases "st e")
    case (Other x)
    then show ?thesis using Cons.IH [of st frame] Cons.prems by simp
  next
    case (Patchable p)
    let ?st' = "st(e := Patchable (place p frame))"
    let ?f' = "exit_of (place p frame)"
    let ?c0 = "\<lparr>callee = e, entry_frame = frame, exit_frame = ?f'\<rparr>"
    have same: "(\<lambda>r. is_Patchable (?st' r)) = (\<lambda>r. is_Patchable (st r))"
      using Patchable by (auto simp: fun_eq_iff)
    have res: "survey_loop place exit_of st frame (e # es) =
                 (fst (survey_loop place exit_of ?st' ?f' es),
                  ?c0 # snd (survey_loop place exit_of ?st' ?f' es))"
      using Patchable by (simp add: Let_def split_beta)
    from Cons.prems(1) Patchable
    have fresh: "e \<notin> set (filter (\<lambda>r. is_Patchable (?st' r)) es)"
      and dist: "distinct (filter (\<lambda>r. is_Patchable (?st' r)) es)"
      unfolding same by auto
    from Cons.prems(2) res
    consider "c = ?c0" | "c \<in> set (snd (survey_loop place exit_of ?st' ?f' es))"
      by auto
    then show ?thesis
    proof cases
      case 1
      have "fst (survey_loop place exit_of ?st' ?f' es) e = ?st' e"
        using fresh by (rule survey_loop_untouched)
      with 1 Patchable res show ?thesis by simp
    next
      case 2
      then have "callee c \<in> set (map callee (snd (survey_loop place exit_of ?st' ?f' es)))"
        by simp
      then have "callee c \<in> set (filter (\<lambda>r. is_Patchable (?st' r)) es)"
        by (simp only: survey_loop_callees)
      with fresh have ne: "callee c \<noteq> e" by auto
      from Cons.IH [OF dist 2] obtain q where
        q: "?st' (callee c) = Patchable q"
           "fst (survey_loop place exit_of ?st' ?f' es) (callee c) = Patchable (place q (entry_frame c))"
           "exit_frame c = exit_of (place q (entry_frame c))"
        by blast
      from q(1) ne have "st (callee c) = Patchable q" by simp
      with q(2,3) res show ?thesis by simp
    qed
  qed
qed

text \<open>
  Claim C1. For every heap, beamline and optional reference frame, \<open>survey\<close> returns an
  \<^verbatim>\<open>Input\<close> with the name and the element-list reference of the beamline, and leaves the
  list objects as they are. The \<^verbatim>\<open>place\<close> calls go to the Patchable elements of the line,
  in the order of the line. The first call receives the reference frame, or the default
  frame when none is given; every later call receives the frame read from \<^verbatim>\<open>exit\<close> of
  the element placed just before. When no Patchable object occurs twice in the line, each
  of them ends in the state \<^verbatim>\<open>place\<close> gives it from its initial state and the frame it
  received, and the frame handed on is the \<^verbatim>\<open>exit\<close> of that state.
\<close>

theorem survey_chains_frames:
  "case survey place exit_of default_frame h beamline reference_frame of
     (surveyed_line, h', calls) \<Rightarrow>
       Input.name surveyed_line = Input.name beamline \<and>
       line surveyed_line = line beamline \<and>
       list_store h' = list_store h \<and>
       map callee calls =
         filter (\<lambda>r. is_Patchable (objs h r)) (list_store h (line beamline)) \<and>
       (calls \<noteq> [] \<longrightarrow>
          entry_frame (hd calls) =
            (case reference_frame of None \<Rightarrow> default_frame | Some f \<Rightarrow> f)) \<and>
       (\<forall>i. Suc i < length calls \<longrightarrow>
          entry_frame (calls ! Suc i) = exit_frame (calls ! i)) \<and>
       (distinct (map callee calls) \<longrightarrow>
          (\<forall>c \<in> set calls. \<exists>p.
             objs h (callee c) = Patchable p \<and>
             objs h' (callee c) = Patchable (place p (entry_frame c)) \<and>
             exit_frame c = exit_of (place p (entry_frame c))))"
proof -
  let ?frame = "case reference_frame of None \<Rightarrow> default_frame | Some f \<Rightarrow> f"
  let ?es = "list_store h (line beamline)"
  let ?r = "survey_loop place exit_of (objs h) ?frame ?es"
  have unfold: "survey place exit_of default_frame h beamline reference_frame =
      (\<lparr>Input.name = Input.name beamline, line = line beamline\<rparr>, h\<lparr>objs := fst ?r\<rparr>, snd ?r)"
    by (simp add: survey_def Let_def split_beta)
  have callees: "map callee (snd ?r) = filter (\<lambda>r. is_Patchable (objs h r)) ?es"
    by (rule survey_loop_callees)
  have first: "snd ?r \<noteq> [] \<longrightarrow> entry_frame (hd (snd ?r)) = ?frame"
    and chain: "\<forall>i. Suc i < length (snd ?r) \<longrightarrow>
                  entry_frame (snd ?r ! Suc i) = exit_frame (snd ?r ! i)"
    using survey_loop_chain [of place exit_of "objs h" ?frame ?es] by blast+
  have placed: "\<exists>p. objs h (callee c) = Patchable p \<and>
                  fst ?r (callee c) = Patchable (place p (entry_frame c)) \<and>
                  exit_frame c = exit_of (place p (entry_frame c))"
    if "distinct (map callee (snd ?r))" and "c \<in> set (snd ?r)" for c
  proof -
    from that(1) have "distinct (filter (\<lambda>r. is_Patchable (objs h r)) ?es)"
      by (simp only: callees)
    then show ?thesis using that(2) by (rule survey_loop_placed)
  qed
  show ?thesis
    unfolding unfold using callees first chain placed by simp
qed

theorem survey_chains_frames_witness:
  "case survey (\<lambda>p f. (fst p, f)) (\<lambda>p. snd p + fst p) (0::int)
          \<lparr>list_store = (\<lambda>l. [0, 1, 2]),
           objs = (\<lambda>r. if r = 1 then Other () else Patchable (int r + 1, 0::int))\<rparr>
          \<lparr>Input.name = ''LINE'', line = 7\<rparr> None of
     (surveyed_line, h', calls) \<Rightarrow>
       Input.name surveyed_line = ''LINE'' \<and> line surveyed_line = 7 \<and>
       map callee calls = [0, 2] \<and> calls \<noteq> [] \<and> entry_frame (hd calls) = 0 \<and>
       Suc 0 < length calls \<and> entry_frame (calls ! Suc 0) = exit_frame (calls ! 0) \<and>
       exit_frame (calls ! 0) = 1 \<and>
       distinct (map callee calls) \<and> objs h' 2 = Patchable (3, 1) \<and> objs h' 1 = Other ()"
  using survey_chains_frames
    [where place = "\<lambda>p f. (fst p, f)" and exit_of = "\<lambda>p. snd p + fst p"
       and default_frame = "0::int"
       and h = "\<lparr>list_store = (\<lambda>l. [0, 1, 2]),
          objs = (\<lambda>r. if r = 1 then Other () else Patchable (int r + 1, 0::int))\<rparr>"
       and beamline = "\<lparr>Input.name = ''LINE'', line = 7\<rparr>" and reference_frame = None]
  by (simp add: survey_def Let_def)

text \<open>
  Claim C2. An element of the line that is not Patchable has the same state after
  \<open>survey\<close> as before, and the running frame is not advanced across it: the calls made
  and the states of all objects after the survey are those of the survey of the same
  line with that element taken out.
\<close>

theorem survey_skips_non_patchable:
  assumes "list_store h (line beamline) = xs @ r # ys"
    and "objs h r = Other x"
  shows "case survey place exit_of default_frame h beamline reference_frame of
     (surveyed_line, h', calls) \<Rightarrow>
       objs h' r = Other x \<and>
       (case survey place exit_of default_frame
               (h\<lparr>list_store := (list_store h)(line beamline := xs @ ys)\<rparr>)
               beamline reference_frame of
          (surveyed_line2, h2, calls2) \<Rightarrow> calls = calls2 \<and> objs h' = objs h2)"
proof -
  let ?frame = "case reference_frame of None \<Rightarrow> default_frame | Some f \<Rightarrow> f"
  have skip: "survey_loop place exit_of (objs h) ?frame (xs @ r # ys) =
              survey_loop place exit_of (objs h) ?frame (xs @ ys)"
    using assms(2) by (rule survey_loop_skip)
  have "r \<notin> set (filter (\<lambda>r. is_Patchable (objs h r)) (xs @ ys))"
    using assms(2) by simp
  then have "fst (survey_loop place exit_of (objs h) ?frame (xs @ ys)) r = objs h r"
    by (rule survey_loop_untouched)
  then show ?thesis
    using assms skip by (simp add: survey_def Let_def split_beta)
qed


theorem survey_skips_non_patchable_witness:
  "list_store \<lparr>list_store = (\<lambda>l. [0, 1, 2]),
           objs = (\<lambda>r. if r = 1 then Other () else Patchable (int r + 1, 0::int))\<rparr>
      (line \<lparr>Input.name = ''LINE'', line = 7\<rparr>) = [0] @ 1 # [2] \<and>
   (case survey (\<lambda>p f. (fst p, f)) (\<lambda>p. snd p + fst p) (0::int)
          \<lparr>list_store = (\<lambda>l. [0, 1, 2]),
           objs = (\<lambda>r. if r = 1 then Other () else Patchable (int r + 1, 0::int))\<rparr>
          \<lparr>Input.name = ''LINE'', line = 7\<rparr> (Some 5) of
     (surveyed_line, h', calls) \<Rightarrow>
       objs h' 1 = Other () \<and>
       calls = [\<lparr>callee = 0, entry_frame = 5, exit_frame = 6\<rparr>,
                \<lparr>callee = 2, entry_frame = 6, exit_frame = 9\<rparr>] \<and>
       (case survey (\<lambda>p f. (fst p, f)) (\<lambda>p. snd p + fst p) (0::int)
          \<lparr>list_store = (\<lambda>l. [0, 2]),
           objs = (\<lambda>r. if r = 1 then Other () else Patchable (int r + 1, 0::int))\<rparr>
          \<lparr>Input.name = ''LINE'', line = 7\<rparr> (Some 5) of
         (surveyed_line2, h2, calls2) \<Rightarrow> calls = calls2 \<and> objs h' = objs h2))"
  using survey_skips_non_patchable
    [where h = "\<lparr>list_store = (\<lambda>l. [0, 1, 2]),
          objs = (\<lambda>r. if r = 1 then Other () else Patchable (int r + 1, 0::int))\<rparr>"
       and beamline = "\<lparr>Input.name = ''LINE'', line = 7\<rparr>"
       and xs = "[0]" and r = 1 and ys = "[2]" and x = "()"
       and place = "\<lambda>p f. (fst p, f)" and exit_of = "\<lambda>p. snd p + fst p"
       and default_frame = "0::int" and reference_frame = "Some 5"]
  by (simp add: survey_def Let_def fun_upd_def)

section \<open>Properties of the converters\<close>

lemmas conv_defs = and_then_def getitem_def Let_def in_unit_def setattr_def getattr_def
  ChangeRef_XR_def fne_def ureg_m_def ureg_meter_def ureg_cm_def ureg_mm_def ureg_tesla_def
  ureg_radian_def ureg_MHz_def ureg_MV_def

lemma fge_not_flt: "fge a b \<Longrightarrow> \<not> flt a b"
  by (cases a; cases b) simp_all

lemma flt_not_feq: "flt a b \<Longrightarrow> \<not> feq a b"
  by (cases a; cases b) simp_all

text \<open>
  Claim C3, as the code behaves. With \<^verbatim>\<open>K1\<close> and \<^verbatim>\<open>K1L\<close> both set (and \<^verbatim>\<open>L\<close> set, which
  the command needs), \<open>quadrupole_to_zgoubi\<close> raises nothing: the test of line 147 finds
  \<^verbatim>\<open>K1\<close>, takes the gradient from it and the function returns one Quadrupole command
  with \<open>B0 = K1 * brho * bore_radius\<close>. The error with the message ``K1 and K1L cannot be
  defined at the same time.'' is not raised for such an element.
\<close>

theorem quadrupole_both_set_no_error:
  assumes "attrs element ''K1'' = Some k1"
    and "attrs element ''K1L'' = Some k1l"
    and "attrs element ''L'' = Some l"
  shows "\<exists>q. quadrupole_to_zgoubi label_length element kin opts = Inr [q] \<and>
             cls q = Quadrupole \<and>
             getattr q ''B0'' =
               Some (Qty (fmul (fmul k1 (brho kin))
                   (case R0 opts of None \<Rightarrow> Fin (1 / 10) | Some r \<Rightarrow> r)))"
  using assms
  by (cases k1) (simp_all add: quadrupole_to_zgoubi_def conv_defs split: option.splits)

theorem quadrupole_both_set_no_error_witness:
  "\<exists>q. quadrupole_to_zgoubi 10
          \<lparr>name = ''Q1'', attrs = [''K1'' \<mapsto> Fin 1, ''K1L'' \<mapsto> Fin 2, ''L'' \<mapsto> Fin 1]\<rparr>
          \<lparr>brho = Fin 1, brho_m = Fin 1\<rparr> \<lparr>command = None, R0 = None\<rparr> = Inr [q] \<and>
       cls q = Quadrupole \<and> getattr q ''B0'' = Some (Qty (Fin (1 / 10)))"
  using quadrupole_both_set_no_error
    [where element = "\<lparr>name = ''Q1'', attrs = [''K1'' \<mapsto> Fin 1, ''K1L'' \<mapsto> Fin 2, ''L'' \<mapsto> Fin 1]\<rparr>"
       and ?k1.0 = "Fin 1" and k1l = "Fin 2" and l = "Fin 1" and label_length = 10
       and kin = "\<lparr>brho = Fin 1, brho_m = Fin 1\<rparr>" and opts = "\<lparr>command = None, R0 = None\<rparr>"]
  by simp

text \<open>
  Claim C4, as the code behaves. With neither \<^verbatim>\<open>K1\<close> nor \<^verbatim>\<open>K1L\<close> present, the zero
  gradient assigned at line 144 is never used: the separate \<^verbatim>\<open>if\<close> of line 147 fails and
  its \<^verbatim>\<open>else\<close> raises \<^verbatim>\<open>KeyError\<close> with the message ``K1 and K1L cannot be defined at the
  same time.''; no command is returned.
\<close>

theorem quadrupole_neither_set_raises:
  assumes "attrs element ''K1'' = None"
    and "attrs element ''K1L'' = None"
  shows "quadrupole_to_zgoubi label_length element kin opts =
           Inl (KeyError ''K1 and K1L cannot be defined at the same time.'')"
  using assms by (simp add: quadrupole_to_zgoubi_def conv_defs)

theorem quadrupole_neither_set_raises_witness:
  "quadrupole_to_zgoubi 10 \<lparr>name = ''Q1'', attrs = [''L'' \<mapsto> Fin 1]\<rparr>
      \<lparr>brho = Fin 1, brho_m = Fin 1\<rparr> \<lparr>command = None, R0 = None\<rparr> =
     Inl (KeyError ''K1 and K1L cannot be defined at the same time.'')"
  using quadrupole_neither_set_raises
    [where element = "\<lparr>name = ''Q1'', attrs = [''L'' \<mapsto> Fin 1]\<rparr>" and label_length = 10
       and kin = "\<lparr>brho = Fin 1, brho_m = Fin 1\<rparr>" and opts = "\<lparr>command = None, R0 = None\<rparr>"]
  by simp

text \<open>
  Claim C9. For an element with \<^verbatim>\<open>FREQ\<close>, \<^verbatim>\<open>VOLT\<close> and \<^verbatim>\<open>LAG\<close>, \<open>twcavity_to_zgoubi\<close>
  returns exactly two commands: a Drift of length 1 mm, then a Cavite with \<open>IOPT = 10\<close>,
  length \<open>XL\<close> of 1 m, \<open>FREQ\<close> the element's \<^verbatim>\<open>FREQ\<close> in MHz, voltage
  \<open>V = VOLT * sign(brho)\<close> in MV and phase \<open>PHI_S = LAG + pi / 2\<close>.
\<close>

theorem twcavity_two_commands:
  assumes "attrs element ''FREQ'' = Some freq"
    and "attrs element ''VOLT'' = Some volt"
    and "attrs element ''LAG'' = Some lag"
  shows "\<exists>d c. twcavity_to_zgoubi label_length element kin opts = Inr [d, c] \<and>
           cls d = Drift \<and> getattr d ''XL'' = Some (Qty (Fin (1 / 1000))) \<and>
           cls c = Cavite \<and>
           getattr c ''IOPT'' = Some (Int_arg 10) \<and>
           getattr c ''XL'' = Some (Qty (Fin 1)) \<and>
           getattr c ''FREQ'' = Some (Qty (in_unit freq ureg_MHz)) \<and>
           getattr c ''V'' = Some (Qty (fmul (in_unit volt ureg_MV) (fsign (brho kin)))) \<and>
           getattr c ''PHI_S'' = Some (Qty (fadd lag (Fin (pi / 2))))"
  using assms
  by (cases lag) (simp_all add: twcavity_to_zgoubi_def conv_defs)


theorem twcavity_two_commands_witness:
  "\<exists>d c. twcavity_to_zgoubi 10
            \<lparr>name = ''CAV'', attrs = [''FREQ'' \<mapsto> Fin 3000, ''VOLT'' \<mapsto> Fin 10, ''LAG'' \<mapsto> Fin 0]\<rparr>
            \<lparr>brho = Fin (- 2), brho_m = Fin (- 2)\<rparr> \<lparr>command = None, R0 = None\<rparr> = Inr [d, c] \<and>
         cls d = Drift \<and> getattr d ''XL'' = Some (Qty (Fin (1 / 1000))) \<and>
         cls c = Cavite \<and>
         getattr c ''IOPT'' = Some (Int_arg 10) \<and>
         getattr c ''XL'' = Some (Qty (Fin 1)) \<and>
         getattr c ''FREQ'' = Some (Qty (Fin 3000000000)) \<and>
         getattr c ''V'' = Some (Qty (Fin (- 10000000))) \<and>
         getattr c ''PHI_S'' = Some (Qty (Fin (pi / 2)))"
  using twcavity_two_commands
    [where element = "\<lparr>name = ''CAV'', attrs = [''FREQ'' \<mapsto> Fin 3000, ''VOLT'' \<mapsto> Fin 10, ''LAG'' \<mapsto> Fin 0]\<rparr>"
       and freq = "Fin 3000" and volt = "Fin 10" and lag = "Fin 0" and label_length = 10
       and kin = "\<lparr>brho = Fin (- 2), brho_m = Fin (- 2)\<rparr>"
       and opts = "\<lparr>command = None, R0 = None\<rparr>"]
  by (simp add: in_unit_def ureg_MHz_def ureg_MV_def)

text \<open>
  Claim C5. For an sbend element with \<open>ANGLE = 0\<close> the quotient is never evaluated: the
  result is the same list of commands for every quotient operation, also one that always
  raises, and the \<open>B1\<close> of its Bend command is exactly zero. For \<open>ANGLE \<noteq> 0\<close> (a
  \<^verbatim>\<open>nan\<close> angle too) the field is \<open>brho / (L / |ANGLE|)\<close>: an error of either quotient is
  the error of the converter, and otherwise the value is the \<open>B1\<close> of the Bend command.
\<close>

theorem sbend_zero_angle_guard:
  assumes "attrs element ''ANGLE'' = Some angle"
    and "attrs element ''L'' = Some l"
    and "attrs element ''E1'' = Some e1"
    and "attrs element ''E2'' = Some e2"
    and "attrs element ''TILT'' = Some t"
  shows "(feq angle (Fin 0) \<longrightarrow>
           (\<exists>b cmds. (\<forall>qdiv. sbend_to_zgoubi qdiv label_length element kin opts = Inr cmds) \<and>
              (cmds = [b] \<or> (\<exists>c1 c2. cmds = [c1, b, c2])) \<and>
              cls b = (case command opts of None \<Rightarrow> Bend | Some c \<Rightarrow> c) \<and>
              getattr b ''B1'' = Some (Qty (Fin 0)))) \<and>
         (\<not> feq angle (Fin 0) \<longrightarrow>
           (case and_then (qdiv l (fabs angle)) (qdiv (brho kin)) of
              Inl err \<Rightarrow> sbend_to_zgoubi qdiv label_length element kin opts = Inl err
            | Inr b1 \<Rightarrow>
                (\<exists>b cmds. sbend_to_zgoubi qdiv label_length element kin opts = Inr cmds \<and>
                   (cmds = [b] \<or> (\<exists>c1 c2. cmds = [c1, b, c2])) \<and>
                   cls b = (case command opts of None \<Rightarrow> Bend | Some c \<Rightarrow> c) \<and>
                   getattr b ''B1'' = Some (Qty b1))))"
proof (intro conjI impI)
  assume zero: "feq angle (Fin 0)"
  show "\<exists>b cmds. (\<forall>qdiv. sbend_to_zgoubi qdiv label_length element kin opts = Inr cmds) \<and>
              (cmds = [b] \<or> (\<exists>c1 c2. cmds = [c1, b, c2])) \<and>
              cls b = (case command opts of None \<Rightarrow> Bend | Some c \<Rightarrow> c) \<and>
              getattr b ''B1'' = Some (Qty (Fin 0))"
    using assms zero
    by (cases t; cases angle) (simp_all add: sbend_to_zgoubi_def conv_defs)
next
  assume nonzero: "\<not> feq angle (Fin 0)"
  show "case and_then (qdiv l (fabs angle)) (qdiv (brho kin)) of
              Inl err \<Rightarrow> sbend_to_zgoubi qdiv label_length element kin opts = Inl err
            | Inr b1 \<Rightarrow>
                (\<exists>b cmds. sbend_to_zgoubi qdiv label_length element kin opts = Inr cmds \<and>
                   (cmds = [b] \<or> (\<exists>c1 c2. cmds = [c1, b, c2])) \<and>
                   cls b = (case command opts of None \<Rightarrow> Bend | Some c \<Rightarrow> c) \<and>
                   getattr b ''B1'' = Some (Qty b1))"
    using assms nonzero
    by (cases t; cases "flt angle (Fin 0)")
       (simp_all add: sbend_to_zgoubi_def conv_defs split: sum.splits)
qed


theorem sbend_zero_angle_guard_witness:
  "feq (Fin 0) (Fin 0) \<and> truediv (Fin 0) (fabs (Fin 0)) = Inl ZeroDivisionError \<and>
   (\<exists>b. sbend_to_zgoubi truediv 10
           \<lparr>name = ''BEND'', attrs = [''ANGLE'' \<mapsto> Fin 0, ''L'' \<mapsto> Fin 0, ''E1'' \<mapsto> NaN,
                                     ''E2'' \<mapsto> NaN, ''TILT'' \<mapsto> NaN]\<rparr>
           \<lparr>brho = Fin 3, brho_m = Fin 3\<rparr> \<lparr>command = None, R0 = None\<rparr> = Inr [b] \<and>
        cls b = Bend \<and> getattr b ''B1'' = Some (Qty (Fin 0))) \<and>
   \<not> feq (Fin (1 / 10)) (Fin 0) \<and>
   (\<exists>b. sbend_to_zgoubi truediv 10
           \<lparr>name = ''BEND'', attrs = [''ANGLE'' \<mapsto> Fin (1 / 10), ''L'' \<mapsto> Fin 2, ''E1'' \<mapsto> NaN,
                                     ''E2'' \<mapsto> NaN, ''TILT'' \<mapsto> NaN]\<rparr>
           \<lparr>brho = Fin 3, brho_m = Fin 3\<rparr> \<lparr>command = None, R0 = None\<rparr> = Inr [b] \<and>
        cls b = Bend \<and> getattr b ''B1'' = Some (Qty (Fin (3 / 20))))"
  using sbend_zero_angle_guard
    [where element = "\<lparr>name = ''BEND'', attrs = [''ANGLE'' \<mapsto> Fin 0, ''L'' \<mapsto> Fin 0,
                        ''E1'' \<mapsto> NaN, ''E2'' \<mapsto> NaN, ''TILT'' \<mapsto> NaN]\<rparr>"
       and angle = "Fin 0" and l = "Fin 0" and ?e1.0 = NaN and ?e2.0 = NaN and t = NaN
       and label_length = 10 and kin = "\<lparr>brho = Fin 3, brho_m = Fin 3\<rparr>"
       and opts = "\<lparr>command = None, R0 = None\<rparr>" and qdiv = truediv]
    sbend_zero_angle_guard
    [where element = "\<lparr>name = ''BEND'', attrs = [''ANGLE'' \<mapsto> Fin (1 / 10), ''L'' \<mapsto> Fin 2,
                        ''E1'' \<mapsto> NaN, ''E2'' \<mapsto> NaN, ''TILT'' \<mapsto> NaN]\<rparr>"
       and angle = "Fin (1 / 10)" and l = "Fin 2" and ?e1.0 = NaN and ?e2.0 = NaN and t = NaN
       and label_length = 10 and kin = "\<lparr>brho = Fin 3, brho_m = Fin 3\<rparr>"
       and opts = "\<lparr>command = None, R0 = None\<rparr>" and qdiv = truediv]
  by (simp add: sbend_to_zgoubi_def conv_defs)

text \<open>
  Claim C6. For an sbend element with \<open>ANGLE < 0\<close> whose field \<open>brho / (L / |ANGLE|)\<close>
  evaluates, \<open>sbend_to_zgoubi\<close> returns exactly three commands, a ChangeRef, the Bend and
  a ChangeRef. With \<open>tilt\<close> the \<^verbatim>\<open>TILT\<close> attribute, or 0 when that is \<^verbatim>\<open>nan\<close>, the first
  ChangeRef rotates by \<open>-(-tilt + pi)\<close> and the second by \<open>-tilt + pi\<close>; each of the two
  angles is the negative of the other.
\<close>

theorem sbend_negative_angle_three_commands:
  assumes "attrs element ''ANGLE'' = Some angle"
    and "attrs element ''L'' = Some l"
    and "attrs element ''E1'' = Some e1"
    and "attrs element ''E2'' = Some e2"
    and "attrs element ''TILT'' = Some t"
    and "flt angle (Fin 0)"
    and "qdiv l (fabs angle) = Inr rho"
    and "qdiv (brho kin) rho = Inr b1"
    and "tilt = (if isnan t then Fin 0 else t)"
  shows "\<exists>b entry_rot exit_rot.
           sbend_to_zgoubi qdiv label_length element kin opts =
             Inr [ChangeRef_XR (name element @ ''_CRL'') entry_rot, b,
                  ChangeRef_XR (name element @ ''_CRR'') exit_rot] \<and>
           cls (ChangeRef_XR (name element @ ''_CRL'') entry_rot) = ChangeRef \<and>
           cls b = (case command opts of None \<Rightarrow> Bend | Some c \<Rightarrow> c) \<and>
           cls (ChangeRef_XR (name element @ ''_CRR'') exit_rot) = ChangeRef \<and>
           getattr b ''B1'' = Some (Qty b1) \<and>
           entry_rot = fneg (fadd (fneg tilt) (Fin pi)) \<and>
           exit_rot = fadd (fneg tilt) (Fin pi) \<and>
           exit_rot = fneg entry_rot \<and> entry_rot = fneg exit_rot"
proof -
  from assms(6) have "\<not> feq angle (Fin 0)" by (rule flt_not_feq)
  with assms show ?thesis
    by (cases t) (simp_all add: sbend_to_zgoubi_def conv_defs)
qed

theorem sbend_negative_angle_three_commands_witness:
  "flt (Fin (- (1 / 10))) (Fin 0) \<and> truediv (Fin 2) (fabs (Fin (- (1 / 10)))) = Inr (Fin 20) \<and>
   truediv (Fin 3) (Fin 20) = Inr (Fin (3 / 20)) \<and>
   (\<exists>b. sbend_to_zgoubi truediv 10
           \<lparr>name = ''BEND'', attrs = [''ANGLE'' \<mapsto> Fin (- (1 / 10)), ''L'' \<mapsto> Fin 2,
                                     ''E1'' \<mapsto> NaN, ''E2'' \<mapsto> NaN, ''TILT'' \<mapsto> Fin (1 / 2)]\<rparr>
           \<lparr>brho = Fin 3, brho_m = Fin 3\<rparr> \<lparr>command = None, R0 = None\<rparr> =
         Inr [ChangeRef_XR ''BEND_CRL'' (Fin (- (- (1 / 2) + pi))), b,
              ChangeRef_XR ''BEND_CRR'' (Fin (- (1 / 2) + pi))] \<and>
        cls b = Bend \<and> getattr b ''B1'' = Some (Qty (Fin (3 / 20))))"
  using sbend_negative_angle_three_commands
    [where element = "\<lparr>name = ''BEND'', attrs = [''ANGLE'' \<mapsto> Fin (- (1 / 10)), ''L'' \<mapsto> Fin 2,
                        ''E1'' \<mapsto> NaN, ''E2'' \<mapsto> NaN, ''TILT'' \<mapsto> Fin (1 / 2)]\<rparr>"
       and angle = "Fin (- (1 / 10))" and l = "Fin 2" and ?e1.0 = NaN and ?e2.0 = NaN
       and t = "Fin (1 / 2)" and tilt = "Fin (1 / 2)" and rho = "Fin 20" and ?b1.0 = "Fin (3 / 20)"
       and label_length = 10 and kin = "\<lparr>brho = Fin 3, brho_m = Fin 3\<rparr>"
       and opts = "\<lparr>command = None, R0 = None\<rparr>" and qdiv = truediv]
  by auto

text \<open>
  Claim C7, amended. For an sbend element whose field \<open>B1\<close> evaluates: when \<^verbatim>\<open>TILT\<close> is
  \<^verbatim>\<open>nan\<close> and \<open>ANGLE\<close> is not below zero, \<open>sbend_to_zgoubi\<close> returns exactly one command,
  the Bend alone; when \<open>ANGLE \<ge> 0\<close> and \<^verbatim>\<open>TILT\<close> is not \<^verbatim>\<open>nan\<close>, it returns three commands,
  the first a ChangeRef rotating by \<open>TILT\<close> and the last a ChangeRef rotating by \<open>-TILT\<close>.
\<close>

theorem sbend_tilt_branches:
  assumes "attrs element ''ANGLE'' = Some angle"
    and "attrs element ''L'' = Some l"
    and "attrs element ''E1'' = Some e1"
    and "attrs element ''E2'' = Some e2"
    and "attrs element ''TILT'' = Some t"
    and "(if feq angle (Fin 0) then Inr (Fin 0)
          else and_then (qdiv l (fabs angle)) (qdiv (brho kin))) = Inr b1"
  shows "(isnan t \<and> \<not> flt angle (Fin 0) \<longrightarrow>
            (\<exists>b. sbend_to_zgoubi qdiv label_length element kin opts = Inr [b] \<and>
                 cls b = (case command opts of None \<Rightarrow> Bend | Some c \<Rightarrow> c) \<and>
                 getattr b ''B1'' = Some (Qty b1))) \<and>
         (fge angle (Fin 0) \<and> \<not> isnan t \<longrightarrow>
            (\<exists>b. sbend_to_zgoubi qdiv label_length element kin opts =
                   Inr [ChangeRef_XR (name element @ ''_CRL'') t, b,
                        ChangeRef_XR (name element @ ''_CRR'') (fneg t)] \<and>
                 cls (ChangeRef_XR (name element @ ''_CRL'') t) = ChangeRef \<and>
                 cls b = (case command opts of None \<Rightarrow> Bend | Some c \<Rightarrow> c) \<and>
                 cls (ChangeRef_XR (name element @ ''_CRR'') (fneg t)) = ChangeRef \<and>
                 getattr b ''B1'' = Some (Qty b1)))"
proof -
  have "\<not> flt angle (Fin 0)" if "fge angle (Fin 0)"
    using that by (rule fge_not_flt)
  with assms show ?thesis
    by (cases t; cases "flt angle (Fin 0)"; cases "feq angle (Fin 0)")
       (auto simp: sbend_to_zgoubi_def conv_defs)
qed

theorem sbend_tilt_branches_witness:
  "isnan NaN \<and> \<not> flt (Fin (1 / 10)) (Fin 0) \<and> fge (Fin (1 / 10)) (Fin 0) \<and> \<not> isnan (Fin (1 / 2)) \<and>
   (\<exists>b. sbend_to_zgoubi truediv 10
           \<lparr>name = ''BEND'', attrs = [''ANGLE'' \<mapsto> Fin (1 / 10), ''L'' \<mapsto> Fin 2,
                                     ''E1'' \<mapsto> NaN, ''E2'' \<mapsto> NaN, ''TILT'' \<mapsto> NaN]\<rparr>
           \<lparr>brho = Fin 3, brho_m = Fin 3\<rparr> \<lparr>command = None, R0 = None\<rparr> = Inr [b] \<and>
        cls b = Bend \<and> getattr b ''B1'' = Some (Qty (Fin (3 / 20)))) \<and>
   (\<exists>b. sbend_to_zgoubi truediv 10
           \<lparr>name = ''BEND'', attrs = [''ANGLE'' \<mapsto> Fin (1 / 10), ''L'' \<mapsto> Fin 2,
                                     ''E1'' \<mapsto> NaN, ''E2'' \<mapsto> NaN, ''TILT'' \<mapsto> Fin (1 / 2)]\<rparr>
           \<lparr>brho = Fin 3, brho_m = Fin 3\<rparr> \<lparr>command = None, R0 = None\<rparr> =
         Inr [ChangeRef_XR ''BEND_CRL'' (Fin (1 / 2)), b, ChangeRef_XR ''BEND_CRR'' (Fin (- (1 / 2)))] \<and>
        cls b = Bend \<and> getattr b ''B1'' = Some (Qty (Fin (3 / 20))))"
  using sbend_tilt_branches
    [where element = "\<lparr>name = ''BEND'', attrs = [''ANGLE'' \<mapsto> Fin (1 / 10), ''L'' \<mapsto> Fin 2,
                        ''E1'' \<mapsto> NaN, ''E2'' \<mapsto> NaN, ''TILT'' \<mapsto> NaN]\<rparr>"
       and angle = "Fin (1 / 10)" and l = "Fin 2" and ?e1.0 = NaN and ?e2.0 = NaN
       and t = NaN and ?b1.0 = "Fin (3 / 20)"
       and label_length = 10 and kin = "\<lparr>brho = Fin 3, brho_m = Fin 3\<rparr>"
       and opts = "\<lparr>command = None, R0 = None\<rparr>" and qdiv = truediv]
    sbend_tilt_branches
    [where element = "\<lparr>name = ''BEND'', attrs = [''ANGLE'' \<mapsto> Fin (1 / 10), ''L'' \<mapsto> Fin 2,
                        ''E1'' \<mapsto> NaN, ''E2'' \<mapsto> NaN, ''TILT'' \<mapsto> Fin (1 / 2)]\<rparr>"
       and angle = "Fin (1 / 10)" and l = "Fin 2" and ?e1.0 = NaN and ?e2.0 = NaN
       and t = "Fin (1 / 2)" and ?b1.0 = "Fin (3 / 20)"
       and label_length = 10 and kin = "\<lparr>brho = Fin 3, brho_m = Fin 3\<rparr>"
       and opts = "\<lparr>command = None, R0 = None\<rparr>" and qdiv = truediv]
  by (auto simp: and_then_def)

text \<open>
  Claim C7 as stated fails for a negative angle: with \<open>ANGLE = -0.1\<close> and \<^verbatim>\<open>TILT\<close> \<^verbatim>\<open>nan\<close>
  the test \<^verbatim>\<open>ANGLE < 0\<close> of line 112 comes first and three commands are returned, with
  rotations \<open>-pi\<close> and \<open>pi\<close>, not one.
\<close>

theorem sbend_nan_tilt_negative_angle_counterexample:
  "attrs \<lparr>name = ''BEND'', attrs = [''ANGLE'' \<mapsto> Fin (- (1 / 10)), ''L'' \<mapsto> Fin 2,
                                   ''E1'' \<mapsto> NaN, ''E2'' \<mapsto> NaN, ''TILT'' \<mapsto> NaN]\<rparr> ''TILT'' = Some NaN \<and>
   (\<exists>b. sbend_to_zgoubi truediv 10
           \<lparr>name = ''BEND'', attrs = [''ANGLE'' \<mapsto> Fin (- (1 / 10)), ''L'' \<mapsto> Fin 2,
                                     ''E1'' \<mapsto> NaN, ''E2'' \<mapsto> NaN, ''TILT'' \<mapsto> NaN]\<rparr>
           \<lparr>brho = Fin 3, brho_m = Fin 3\<rparr> \<lparr>command = None, R0 = None\<rparr> =
         Inr [ChangeRef_XR ''BEND_CRL'' (Fin (- pi)), b, ChangeRef_XR ''BEND_CRR'' (Fin pi)]) \<and>
   \<not> (\<exists>b. sbend_to_zgoubi truediv 10
           \<lparr>name = ''BEND'', attrs = [''ANGLE'' \<mapsto> Fin (- (1 / 10)), ''L'' \<mapsto> Fin 2,
                                     ''E1'' \<mapsto> NaN, ''E2'' \<mapsto> NaN, ''TILT'' \<mapsto> NaN]\<rparr>
           \<lparr>brho = Fin 3, brho_m = Fin 3\<rparr> \<lparr>command = None, R0 = None\<rparr> = Inr [b])"
  by (simp add: sbend_to_zgoubi_def conv_defs)


text \<open>
  Claim C10. \<^verbatim>\<open>nan != 0\<close> is true, and the test of line 110 reads the raw \<^verbatim>\<open>TILT\<close>
  attribute: for an sbend element whose field \<open>B1\<close> evaluates, the Bend command returned
  carries \<open>COLOR = 'goldenrod'\<close> when \<^verbatim>\<open>TILT\<close> is \<^verbatim>\<open>nan\<close>, as it does for a non-zero tilt,
  and carries no colour only for a tilt equal to zero.
\<close>

theorem sbend_colour_on_unset_tilt:
  assumes "attrs element ''ANGLE'' = Some angle"
    and "attrs element ''L'' = Some l"
    and "attrs element ''E1'' = Some e1"
    and "attrs element ''E2'' = Some e2"
    and "attrs element ''TILT'' = Some t"
    and "(if feq angle (Fin 0) then Inr (Fin 0)
          else and_then (qdiv l (fabs angle)) (qdiv (brho kin))) = Inr b1"
  shows "fne NaN (Fin 0) \<and>
         (\<exists>b cmds. sbend_to_zgoubi qdiv label_length element kin opts = Inr cmds \<and>
            (cmds = [b] \<or> (\<exists>c1 c2. cmds = [c1, b, c2])) \<and>
            cls b = (case command opts of None \<Rightarrow> Bend | Some c \<Rightarrow> c) \<and>
            getattr b ''COLOR'' =
              (if t = NaN then Some (Str ''goldenrod'')
               else if t = Fin 0 then None else Some (Str ''goldenrod'')))"
  using assms
  by (cases t; cases "flt angle (Fin 0)"; cases "feq angle (Fin 0)")
     (auto simp: sbend_to_zgoubi_def conv_defs)

theorem sbend_colour_on_unset_tilt_witness:
  "attrs \<lparr>name = ''BEND'', attrs = [''ANGLE'' \<mapsto> Fin (1 / 10), ''L'' \<mapsto> Fin 2,
                                   ''E1'' \<mapsto> NaN, ''E2'' \<mapsto> NaN, ''TILT'' \<mapsto> NaN]\<rparr> ''TILT'' = Some NaN \<and>
   (\<exists>b. sbend_to_zgoubi truediv 10
           \<lparr>name = ''BEND'', attrs = [''ANGLE'' \<mapsto> Fin (1 / 10), ''L'' \<mapsto> Fin 2,
                                     ''E1'' \<mapsto> NaN, ''E2'' \<mapsto> NaN, ''TILT'' \<mapsto> NaN]\<rparr>
           \<lparr>brho = Fin 3, brho_m = Fin 3\<rparr> \<lparr>command = None, R0 = None\<rparr> = Inr [b] \<and>
        cls b = Bend \<and> getattr b ''COLOR'' = Some (Str ''goldenrod''))"
  using sbend_colour_on_unset_tilt
    [where element = "\<lparr>name = ''BEND'', attrs = [''ANGLE'' \<mapsto> Fin (1 / 10), ''L'' \<mapsto> Fin 2,
                        ''E1'' \<mapsto> NaN, ''E2'' \<mapsto> NaN, ''TILT'' \<mapsto> NaN]\<rparr>"
       and angle = "Fin (1 / 10)" and l = "Fin 2" and ?e1.0 = NaN and ?e2.0 = NaN
       and t = NaN and ?b1.0 = "Fin (3 / 20)"
       and label_length = 10 and kin = "\<lparr>brho = Fin 3, brho_m = Fin 3\<rparr>"
       and opts = "\<lparr>command = None, R0 = None\<rparr>" and qdiv = truediv]
  by (auto simp: and_then_def sbend_to_zgoubi_def conv_defs)




end
